theory Spec2Isabelle
  imports Complex_Main
begin

section \<open>Numbers, bars and errors\<close>

text \<open>
  The TypeScript sources compute on JavaScript numbers. Throughout this development a
  number that comes from the data provider is a finite real. The non-finite values that
  the code itself can create (a division by zero, the \<^verbatim>\<open>?? Infinity\<close> defaults) are
  modelled explicitly by the type \<open>jsnum\<close> at the places where the code performs them.
  Where a comparison sits on a threshold, in the bandar-flow classification, every
  operation and every decimal literal is rounded to double precision as JavaScript
  does; elsewhere arithmetic is exact.
\<close>

datatype jsnum = Fin real | PInf | NInf | NaN

text \<open>\<^verbatim>\<open>a / b\<close> on finite operands; the zero divisor is \<^verbatim>\<open>+0\<close>.\<close>

definition js_div :: "real \<Rightarrow> real \<Rightarrow> jsnum" where
  "js_div a b =
     (if b \<noteq> 0 then Fin (a / b)
      else if a > 0 then PInf
      else if a < 0 then NInf
      else NaN)"

fun js_abs :: "jsnum \<Rightarrow> jsnum" where
  "js_abs (Fin x) = Fin \<bar>x\<bar>"
| "js_abs PInf = PInf"
| "js_abs NInf = PInf"
| "js_abs NaN = NaN"

text \<open>\<^verbatim>\<open>a < b\<close> and \<^verbatim>\<open>a > b\<close>: every comparison with \<^verbatim>\<open>NaN\<close> is false.\<close>

fun js_lt :: "jsnum \<Rightarrow> jsnum \<Rightarrow> bool" where
  "js_lt NaN _ = False"
| "js_lt _ NaN = False"
| "js_lt (Fin x) (Fin y) = (x < y)"
| "js_lt (Fin x) PInf = True"
| "js_lt (Fin x) NInf = False"
| "js_lt PInf _ = False"
| "js_lt NInf NInf = False"
| "js_lt NInf _ = True"

definition js_gt :: "jsnum \<Rightarrow> jsnum \<Rightarrow> bool" where
  "js_gt a b = js_lt b a"

text \<open>\<^verbatim>\<open>a === b\<close> on numbers: \<^verbatim>\<open>NaN\<close> equals nothing, itself included.\<close>

definition js_eq :: "jsnum \<Rightarrow> jsnum \<Rightarrow> bool" where
  "js_eq a b = (a \<noteq> NaN \<and> b \<noteq> NaN \<and> a = b)"

text \<open>\<^verbatim>\<open>Math.round\<close>: the nearest integer, a half rounds towards plus infinity.\<close>

definition js_round :: "real \<Rightarrow> real" where
  "js_round x = of_int \<lfloor>x + 1 / 2\<rfloor>"

text \<open>\<^verbatim>\<open>Math.round(x * 100) / 100\<close>, the two-decimal rounding of the result fields.\<close>

definition round2 :: "real \<Rightarrow> real" where
  "round2 x = js_round (x * 100) / 100"

text \<open>
  Sum, product and \<^verbatim>\<open>Math.min\<close> of two numbers, one of which may be non-finite, and
  \<^verbatim>\<open>Math.round\<close> on such a number, with the special cases of IEEE 754.
\<close>

fun js_add :: "jsnum \<Rightarrow> jsnum \<Rightarrow> jsnum" where
  "js_add NaN _ = NaN"
| "js_add _ NaN = NaN"
| "js_add (Fin x) (Fin y) = Fin (x + y)"
| "js_add PInf NInf = NaN"
| "js_add NInf PInf = NaN"
| "js_add PInf _ = PInf"
| "js_add _ PInf = PInf"
| "js_add NInf _ = NInf"
| "js_add _ NInf = NInf"

fun js_mul :: "jsnum \<Rightarrow> jsnum \<Rightarrow> jsnum" where
  "js_mul NaN _ = NaN"
| "js_mul _ NaN = NaN"
| "js_mul (Fin x) (Fin y) = Fin (x * y)"
| "js_mul (Fin x) PInf = (if x > 0 then PInf else if x < 0 then NInf else NaN)"
| "js_mul (Fin x) NInf = (if x > 0 then NInf else if x < 0 then PInf else NaN)"
| "js_mul PInf (Fin y) = (if y > 0 then PInf else if y < 0 then NInf else NaN)"
| "js_mul NInf (Fin y) = (if y > 0 then NInf else if y < 0 then PInf else NaN)"
| "js_mul PInf PInf = PInf"
| "js_mul NInf NInf = PInf"
| "js_mul PInf NInf = NInf"
| "js_mul NInf PInf = NInf"

fun js_min :: "jsnum \<Rightarrow> jsnum \<Rightarrow> jsnum" where
  "js_min NaN _ = NaN"
| "js_min _ NaN = NaN"
| "js_min (Fin x) (Fin y) = Fin (min x y)"
| "js_min NInf _ = NInf"
| "js_min _ NInf = NInf"
| "js_min PInf b = b"
| "js_min a PInf = a"

fun js_round_num :: "jsnum \<Rightarrow> jsnum" where
  "js_round_num (Fin x) = Fin (js_round x)"
| "js_round_num a = a"

subsection \<open>Rounding to double precision\<close>

text \<open>
  A \<open>rounding\<close> maps the exact result of an operation, or the value of a decimal
  literal, to the double that JavaScript stores for it. It is a parameter of the
  bandar-flow classification, so that what is proved there holds for the rounding of
  the machine. Results are taken to lie in the range of finite doubles.
\<close>

type_synonym rounding = "real \<Rightarrow> real"

fun js_fl :: "rounding \<Rightarrow> jsnum \<Rightarrow> jsnum" where
  "js_fl fl (Fin x) = Fin (fl x)"
| "js_fl fl a = a"

text \<open>
  The rounding of IEEE 754 binary64 in its normal range: the nearest number with a
  significand of 53 bits, a tie going to the even significand. \<open>ulp_of n m u\<close>
  doubles or halves the unit \<open>u\<close>, at most \<open>n\<close> times, until \<open>m / u\<close> lies between
  \<open>2 ^ 52\<close> and \<open>2 ^ 53\<close>.
\<close>

function ulp_of :: "nat \<Rightarrow> real \<Rightarrow> real \<Rightarrow> real" where
  "ulp_of n m u =
     (if n = 0 then u
      else if m / u \<ge> 2 ^ 53 then ulp_of (n - 1) m (u * 2)
      else if m / u < 2 ^ 52 then ulp_of (n - 1) m (u / 2)
      else u)"
  by pat_completeness auto
termination
  by (relation "measure (\<lambda>(n, m, u). n)") auto

declare ulp_of.simps [simp del]

definition round_half_even :: "real \<Rightarrow> int" where
  "round_half_even m =
     (let f = \<lfloor>m\<rfloor>; d = m - of_int f
      in if d < 1 / 2 then f
         else if d > 1 / 2 then f + 1
         else if even f then f else f + 1)"

definition fl_double :: rounding where
  "fl_double x =
     (if x = 0 then 0
      else
        (let u = ulp_of 2200 \<bar>x\<bar> 1;
             q = of_int (round_half_even (\<bar>x\<bar> / u)) * u
         in if x < 0 then - q else q))"

text \<open>
  \<^verbatim>\<open>Math.max(...xs)\<close> and \<^verbatim>\<open>Math.min(...xs)\<close>. Every call site passes a non-empty
  array; on the empty array JavaScript answers \<^verbatim>\<open>-Infinity\<close> and \<^verbatim>\<open>Infinity\<close>.
\<close>

fun Math_max :: "real list \<Rightarrow> jsnum" where
  "Math_max [] = NInf"
| "Math_max (x # xs) = (case Math_max xs of Fin m \<Rightarrow> Fin (max x m) | _ \<Rightarrow> Fin x)"

fun Math_min :: "real list \<Rightarrow> jsnum" where
  "Math_min [] = PInf"
| "Math_min (x # xs) = (case Math_min xs of Fin m \<Rightarrow> Fin (min x m) | _ \<Rightarrow> Fin x)"

text \<open>\<^verbatim>\<open>xs.slice(-n)\<close>: the last \<open>n\<close> elements, all of them when there are fewer.\<close>

definition slice_last :: "nat \<Rightarrow> 'a list \<Rightarrow> 'a list" where
  "slice_last n xs = drop (length xs - n) xs"

text \<open>\<^verbatim>\<open>xs[xs.length - 1]\<close>: \<^verbatim>\<open>undefined\<close> on the empty array.\<close>

definition last_opt :: "'a list \<Rightarrow> 'a option" where
  "last_opt xs = (if xs = [] then None else Some (xs ! (length xs - 1)))"

text \<open>\<^verbatim>\<open>xs.reduce((sum, x) => sum + x, 0)\<close>\<close>

definition sum_reduce :: "real list \<Rightarrow> real" where
  "sum_reduce xs = fold (\<lambda>vol sum. sum + vol) xs 0"

text \<open>The interface \<^verbatim>\<open>StockData\<close>: one OHLCV bar, the timestamp in milliseconds.\<close>

record StockData =
  timestamp :: int
  open_price :: real
  high :: real
  low :: real
  close :: real
  volume :: real

text \<open>
  The errors the services throw. \<open>Failed e\<close> is the re-thrown error of an outer
  \<^verbatim>\<open>catch\<close> block, which wraps the message of \<open>e\<close>.
\<close>

datatype error =
    LengthMismatch
  | InsufficientData
  | NoData
  | UpstreamFailure string
  | Failed error

subsection \<open>Strings\<close>

text \<open>
  Ticker symbols are ASCII strings. \<^verbatim>\<open>toUpperCase\<close> maps the twenty-six lower-case
  letters, \<^verbatim>\<open>trim\<close> strips white space at both ends, \<^verbatim>\<open>endsWith\<close> tests a suffix,
  \<^verbatim>\<open>s.replace(pat, rep)\<close> with a string pattern replaces the first occurrence only,
  and \<^verbatim>\<open>parts.join(sep)\<close> concatenates with a separator.
\<close>

definition uc_table :: "(char \<times> char) list" where
  "uc_table = zip ''abcdefghijklmnopqrstuvwxyz'' ''ABCDEFGHIJKLMNOPQRSTUVWXYZ''"

definition toUpperCase :: "string \<Rightarrow> string" where
  "toUpperCase s = map (\<lambda>c. case map_of uc_table c of Some u \<Rightarrow> u | None \<Rightarrow> c) s"

definition isSpace :: "char \<Rightarrow> bool" where
  "isSpace c = (c \<in> set [CHR '' '', CHR 0x09, CHR 0x0A, CHR 0x0B, CHR 0x0C, CHR 0x0D])"

definition trim :: "string \<Rightarrow> string" where
  "trim s = rev (dropWhile isSpace (rev (dropWhile isSpace s)))"

definition endsWith :: "string \<Rightarrow> string \<Rightarrow> bool" where
  "endsWith s suffix =
     (length suffix \<le> length s \<and> drop (length s - length suffix) s = suffix)"

fun replace_first :: "string \<Rightarrow> string \<Rightarrow> string \<Rightarrow> string" where
  "replace_first pat rep [] = (if pat = [] then rep else [])"
| "replace_first pat rep (c # cs) =
     (if take (length pat) (c # cs) = pat then rep @ drop (length pat) (c # cs)
      else c # replace_first pat rep cs)"

fun join :: "string \<Rightarrow> string list \<Rightarrow> string" where
  "join sep [] = []"
| "join sep [p] = p"
| "join sep (p # q # ps) = p @ sep @ join sep (q # ps)"

subsection \<open>Calendar dates\<close>

text \<open>
  \<^verbatim>\<open>new Date(ms)\<close> with \<^verbatim>\<open>getFullYear()\<close>, \<^verbatim>\<open>getMonth()\<close> and \<^verbatim>\<open>getDate()\<close> reads
  a timestamp in the time zone of the process. That reading is a parameter: a
  \<open>calendar\<close> maps a timestamp to the year, the month counted from zero and the day of
  the month. The sources compare dates through the key \<^verbatim>\<open>YYYY-MM-DD\<close>, with month
  and day padded to two digits; two keys are the same string exactly when year, month
  and day agree, so the key is modelled by that triple.
\<close>

type_synonym calendar = "int \<Rightarrow> int \<times> nat \<times> nat"

definition dateKey :: "calendar \<Rightarrow> int \<Rightarrow> int \<times> nat \<times> nat" where
  "dateKey cal ms = (case cal ms of (y, m, d) \<Rightarrow> (y, m + 1, d))"

text \<open>
  One concrete calendar, used to run the model: the proleptic Gregorian date of a
  timestamp in UTC.
\<close>

definition utc_calendar :: calendar where
  "utc_calendar ms =
     (let z = ms div 86400000 + 719468;
          era = z div 146097;
          doe = z - era * 146097;
          yoe = (doe - doe div 1460 + doe div 36524 - doe div 146096) div 365;
          doy = doe - (365 * yoe + yoe div 4 - yoe div 100);
          mp = (5 * doy + 2) div 153;
          d = doy - (153 * mp + 2) div 5 + 1;
          m = (if mp < 10 then mp + 3 else mp - 9);
          y = yoe + era * 400 + (if m \<le> 2 then 1 else 0)
      in (y, nat (m - 1), nat d))"

section \<open>The indicator service\<close>

text \<open>
  RSI, MACD, ATR and EMA are computed by the third-party package
  \<^verbatim>\<open>technicalindicators\<close>; its four \<^verbatim>\<open>calculate\<close> functions are parameters of the model.
  A MACD item carries three optional numbers.
\<close>

record indicator_lib =
  RSI_calculate :: "real list \<Rightarrow> nat \<Rightarrow> real list"
  MACD_calculate :: "real list \<Rightarrow> (real option \<times> real option \<times> real option) list"
  ATR_calculate :: "real list \<Rightarrow> real list \<Rightarrow> real list \<Rightarrow> nat \<Rightarrow> real list"
  EMA_calculate :: "real list \<Rightarrow> nat \<Rightarrow> real list"

definition calculateRSI :: "indicator_lib \<Rightarrow> real list \<Rightarrow> nat \<Rightarrow> error + real list" where
  "calculateRSI lib closes period =
     (if length closes < period + 1 then Inl InsufficientData
      else Inr (RSI_calculate lib closes period))"

record macd_series =
  MACD :: "real list"
  signal_line :: "real list"
  histogram :: "real list"

definition calculateMACD :: "indicator_lib \<Rightarrow> real list \<Rightarrow> error + macd_series" where
  "calculateMACD lib closes =
     (if length closes < 26 then Inl InsufficientData
      else
        (let macd = MACD_calculate lib closes
         in Inr \<lparr> MACD = map (\<lambda>(m, s, h). case m of Some v \<Rightarrow> v | None \<Rightarrow> 0) macd,
                  signal_line = map (\<lambda>(m, s, h). case s of Some v \<Rightarrow> v | None \<Rightarrow> 0) macd,
                  histogram = map (\<lambda>(m, s, h). case h of Some v \<Rightarrow> v | None \<Rightarrow> 0) macd \<rparr>))"

definition calculateATR ::
  "indicator_lib \<Rightarrow> real list \<Rightarrow> real list \<Rightarrow> real list \<Rightarrow> nat \<Rightarrow> error + real list" where
  "calculateATR lib highs lows closes period =
     (if length highs \<noteq> length lows \<or> length lows \<noteq> length closes then Inl LengthMismatch
      else if length highs < period + 1 then Inl InsufficientData
      else Inr (ATR_calculate lib highs lows closes period))"

definition calculateEMA :: "indicator_lib \<Rightarrow> real list \<Rightarrow> nat \<Rightarrow> error + real list" where
  "calculateEMA lib vals period =
     (if length vals < period then Inl InsufficientData
      else Inr (EMA_calculate lib vals period))"

subsection \<open>VWAP\<close>

text \<open>
  The \<^verbatim>\<open>for\<close> loop of \<^verbatim>\<open>calculateVWAP\<close>: the loop variable and the two running sums
  are passed along, \<^verbatim>\<open>vwap.push\<close> appends.
\<close>

function vwap_loop ::
  "real list \<Rightarrow> real list \<Rightarrow> real list \<Rightarrow> real list \<Rightarrow> nat \<Rightarrow> real \<Rightarrow> real \<Rightarrow> real list
     \<Rightarrow> real list" where
  "vwap_loop highs lows closes volumes i cumulativeTPV cumulativeVolume vwap =
     (if i < length closes then
        (let typicalPrice = (highs ! i + lows ! i + closes ! i) / 3;
             tpv = typicalPrice * volumes ! i;
             cumulativeTPV' = cumulativeTPV + tpv;
             cumulativeVolume' = cumulativeVolume + volumes ! i
         in vwap_loop highs lows closes volumes (Suc i) cumulativeTPV' cumulativeVolume'
              (vwap @ [if cumulativeVolume' = 0 then typicalPrice
                       else cumulativeTPV' / cumulativeVolume']))
      else vwap)"
  by pat_completeness auto
termination
  by (relation "measure (\<lambda>(highs, lows, closes, volumes, i, rest). length closes - i)") auto

declare vwap_loop.simps [simp del]

definition calculateVWAP ::
  "real list \<Rightarrow> real list \<Rightarrow> real list \<Rightarrow> real list \<Rightarrow> error + real list" where
  "calculateVWAP highs lows closes volumes =
     (if length highs \<noteq> length lows \<or> length lows \<noteq> length closes
         \<or> length closes \<noteq> length volumes
      then Inl LengthMismatch
      else Inr (vwap_loop highs lows closes volumes 0 0 0 []))"

subsection \<open>OBV\<close>

function obv_loop ::
  "real list \<Rightarrow> real list \<Rightarrow> nat \<Rightarrow> real \<Rightarrow> real list \<Rightarrow> real list" where
  "obv_loop closes volumes i cumulativeOBV obv =
     (if i < length closes then
        (let cumulativeOBV' =
               (if i = 0 then volumes ! i
                else if closes ! i > closes ! (i - 1) then cumulativeOBV + volumes ! i
                else if closes ! i < closes ! (i - 1) then cumulativeOBV - volumes ! i
                else cumulativeOBV)
         in obv_loop closes volumes (Suc i) cumulativeOBV' (obv @ [cumulativeOBV']))
      else obv)"
  by pat_completeness auto
termination
  by (relation "measure (\<lambda>(closes, volumes, i, c, obv). length closes - i)") auto

declare obv_loop.simps [simp del]

definition calculateOBV :: "real list \<Rightarrow> real list \<Rightarrow> error + real list" where
  "calculateOBV closes volumes =
     (if length closes \<noteq> length volumes then Inl LengthMismatch
      else if length closes = 0 then Inr []
      else Inr (obv_loop closes volumes 0 0 []))"

text \<open>
  The OBV series as the specification words it: the first value is the first volume,
  and each later value adds the signed volume of its bar to the value before.
\<close>

fun obv_spec :: "real list \<Rightarrow> real list \<Rightarrow> nat \<Rightarrow> real" where
  "obv_spec closes volumes 0 = volumes ! 0"
| "obv_spec closes volumes (Suc k) =
     obv_spec closes volumes k +
       (if closes ! Suc k > closes ! k then volumes ! Suc k
        else if closes ! Suc k < closes ! k then - volumes ! Suc k
        else 0)"

subsection \<open>Session VWAP\<close>

text \<open>
  \<^verbatim>\<open>calculateSessionVWAP\<close>: the same accumulation, with the running sums reset on the
  first bar of every calendar day. \<^verbatim>\<open>currentDate\<close> starts as the empty string, which
  is no date key; it is \<open>None\<close> here.
\<close>

function session_vwap_loop ::
  "calendar \<Rightarrow> StockData list \<Rightarrow> nat \<Rightarrow> (int \<times> nat \<times> nat) option \<Rightarrow> real \<Rightarrow> real
     \<Rightarrow> real list \<Rightarrow> real list" where
  "session_vwap_loop cal bars i currentDate cumulativeTPV cumulativeVolume vwap =
     (if i < length bars then
        (let item = bars ! i;
             key = dateKey cal (timestamp item);
             reset = (currentDate \<noteq> Some key);
             typicalPrice = (high item + low item + close item) / 3;
             tpv = typicalPrice * volume item;
             cumulativeTPV' = (if reset then 0 else cumulativeTPV) + tpv;
             cumulativeVolume' = (if reset then 0 else cumulativeVolume) + volume item
         in session_vwap_loop cal bars (Suc i) (if reset then Some key else currentDate)
              cumulativeTPV' cumulativeVolume'
              (vwap @ [if cumulativeVolume' = 0 then typicalPrice
                       else cumulativeTPV' / cumulativeVolume']))
      else vwap)"
  by pat_completeness auto
termination
  by (relation "measure (\<lambda>(cal, bars, i, rest). length bars - i)") auto

declare session_vwap_loop.simps [simp del]

definition calculateSessionVWAP :: "calendar \<Rightarrow> StockData list \<Rightarrow> real list" where
  "calculateSessionVWAP cal bars =
     (if length bars = 0 then [] else session_vwap_loop cal bars 0 None 0 0 [])"

section \<open>The swing analyzer\<close>

subsection \<open>Candlestick patterns\<close>

text \<open>
  A \<^verbatim>\<open>CandlestickPattern\<close> object is one of five constants; its label and colour
  classes are fixed by its name, so the pattern is modelled by the name.
\<close>

datatype CandlestickPattern =
  BullishEngulfing | BearishEngulfing | Hammer | ShootingStar | Doji

definition isBullish :: "StockData \<Rightarrow> bool" where
  "isBullish candle = (close candle > open_price candle)"

definition isBearish :: "StockData \<Rightarrow> bool" where
  "isBearish candle = (close candle < open_price candle)"

definition bodySize :: "StockData \<Rightarrow> real" where
  "bodySize candle = \<bar>close candle - open_price candle\<bar>"

definition rangeSize :: "StockData \<Rightarrow> real" where
  "rangeSize candle = high candle - low candle"

definition upperShadow :: "StockData \<Rightarrow> real" where
  "upperShadow candle = high candle - max (open_price candle) (close candle)"

definition lowerShadow :: "StockData \<Rightarrow> real" where
  "lowerShadow candle = min (open_price candle) (close candle) - low candle"

text \<open>
  \<^verbatim>\<open>detectCandlePatterns\<close>. With at least two bars both \<^verbatim>\<open>current\<close> and \<^verbatim>\<open>prev\<close> are
  objects, so the tests \<^verbatim>\<open>if (current)\<close> and \<^verbatim>\<open>prev &&\<close> succeed. The five blocks
  push in the order of the source.
\<close>

definition detectCandlePatterns :: "StockData list \<Rightarrow> CandlestickPattern list" where
  "detectCandlePatterns historicalData =
     (if length historicalData < 2 then []
      else
        (let last5Candles = slice_last 5 historicalData;
             current = last5Candles ! (length last5Candles - 1);
             prev = last5Candles ! (length last5Candles - 2);
             body = bodySize current;
             range = rangeSize current;
             lower = lowerShadow current;
             upper = upperShadow current
         in (if isBearish prev \<and> isBullish current \<and>
                open_price current < close prev \<and>
                close current > open_price prev \<and>
                bodySize current > bodySize prev * 1.1
             then [BullishEngulfing] else [])
          @ (if isBullish prev \<and> isBearish current \<and>
                open_price current > close prev \<and>
                close current < open_price prev \<and>
                bodySize current > bodySize prev * 1.1
             then [BearishEngulfing] else [])
          @ (if range > 0 \<and> body < range * 0.3 \<and> lower > body * 2 \<and> upper < body * 0.5
             then [Hammer] else [])
          @ (if range > 0 \<and> body < range * 0.3 \<and> upper > body * 2 \<and> lower < body * 0.5 \<and>
                isBearish current
             then [ShootingStar] else [])
          @ (if range > 0 \<and> body < range * 0.1 then [Doji] else [])))"

subsection \<open>Market data\<close>

text \<open>
  The market-data service asks the data provider over the network. Its answers are a
  parameter of the model: the bars of a ticker for an interval, the latest quote, and
  the two bar series of the intraday view, each of them or the error thrown.
\<close>

record market_data =
  getHistoricalData :: "string \<Rightarrow> string \<Rightarrow> error + StockData list"
  getCurrentPrice :: "string \<Rightarrow> error + real"
  getIntradayData :: "string \<Rightarrow> error + StockData list \<times> StockData list"

subsection \<open>Signal, confidence and prediction\<close>

datatype Signal = BUY | SELL | NEUTRAL

text \<open>
  The block of \<^verbatim>\<open>analyzeStock\<close> that sets \<^verbatim>\<open>signal\<close> and \<^verbatim>\<open>confidenceScore\<close>. The
  quotient by \<^verbatim>\<open>latestEMA200\<close> is not guarded in the source.
\<close>

definition signalAndConfidence :: "real \<Rightarrow> real \<Rightarrow> real \<Rightarrow> Signal \<times> jsnum" where
  "signalAndConfidence latestRSI currentPrice latestEMA200 =
     (if latestRSI < 30 \<and> currentPrice > latestEMA200 then
        (let rsiStrength = (30 - latestRSI) / 30;
             priceStrength =
               js_mul (js_min (js_div (currentPrice - latestEMA200) latestEMA200) (Fin 0.1))
                 (Fin 10)
         in (BUY,
             js_min (js_add (Fin (50 + rsiStrength * 30)) (js_mul priceStrength (Fin 20)))
               (Fin 95)))
      else if latestRSI > 70 then
        (let rsiStrength = (latestRSI - 70) / 30
         in (SELL, js_min (Fin (50 + rsiStrength * 30)) (Fin 95)))
      else (NEUTRAL, Fin 30))"

text \<open>The block that computes \<^verbatim>\<open>predPrice\<close>, rounded to an integer.\<close>

definition predictPrice :: "real \<Rightarrow> real \<Rightarrow> real \<Rightarrow> real \<Rightarrow> real" where
  "predictPrice latestRSI latestMACDHistogram currentPrice volatility =
     js_round
       (if latestRSI < 30 then currentPrice * (1 + volatility * 0.8)
        else if latestRSI > 70 then currentPrice * (1 - volatility * 0.8)
        else if latestMACDHistogram > 0 then currentPrice * (1 + volatility * 0.3)
        else currentPrice * (1 - volatility * 0.3))"

subsection \<open>Bandar flow\<close>

datatype BandarStatus = AKUMULASI | DISTRIBUSI | MARKUP | MARKDOWN | NEUTRAL_FLOW

text \<open>
  \<^verbatim>\<open>BandarFlowData\<close> without its two chart series. \<open>NEUTRAL_FLOW\<close> is the status
  \<^verbatim>\<open>'NEUTRAL'\<close>.
\<close>

record BandarFlowData =
  status :: BandarStatus
  priceSlope :: real
  obvSlope :: real

text \<open>
  The bandar-flow block of \<^verbatim>\<open>analyzeStock\<close>. It sits in a \<^verbatim>\<open>try\<close> whose handler
  logs and leaves the field undefined. The quotient by the first close is not guarded
  in the source; the quotient by the first OBV value is. Each difference and each
  quotient is rounded, and so are the literals \<^verbatim>\<open>0.02\<close> and \<^verbatim>\<open>0.01\<close>; the division by
  the length, the absolute value and the negation of the threshold follow the source.
  The OBV values are sums and differences of whole volumes and are exact.
\<close>

definition bandarFlowOf :: "rounding \<Rightarrow> StockData list \<Rightarrow> BandarFlowData option" where
  "bandarFlowOf fl historicalData =
     (let last20Data = slice_last 20 historicalData
      in if length last20Data \<ge> 20 then
           (let last20Closes = map close last20Data;
                last20Volumes = map volume last20Data
            in case calculateOBV last20Closes last20Volumes of
                 Inl e \<Rightarrow> None
               | Inr obvValues \<Rightarrow>
                   (let priceSlope =
                          fl (fl (last20Closes ! (length last20Closes - 1) - last20Closes ! 0)
                                / real (length last20Closes));
                        obvSlope =
                          fl (fl (obvValues ! (length obvValues - 1) - obvValues ! 0)
                                / real (length obvValues));
                        priceChangePercent = js_fl fl (js_div priceSlope (last20Closes ! 0));
                        obvChangePercent =
                          (if obvValues ! 0 \<noteq> 0 then fl (obvSlope / \<bar>obvValues ! 0\<bar>)
                           else 0);
                        significantThreshold = fl 0.02;
                        status =
                          (if js_lt (js_abs priceChangePercent) (Fin (fl 0.01)) \<and>
                              obvChangePercent > significantThreshold then AKUMULASI
                           else if js_lt (js_abs priceChangePercent) (Fin (fl 0.01)) \<and>
                              obvChangePercent < - significantThreshold then DISTRIBUSI
                           else if js_gt priceChangePercent (Fin 0) \<and> obvChangePercent > 0
                             then MARKUP
                           else if js_lt priceChangePercent (Fin 0) \<and> obvChangePercent < 0
                             then MARKDOWN
                           else NEUTRAL_FLOW)
                    in Some \<lparr> status = status, priceSlope = priceSlope,
                               obvSlope = obvSlope \<rparr>))
         else None)"

subsection \<open>The analysis of one ticker\<close>

text \<open>
  \<^verbatim>\<open>AnalysisResult\<close> with the fields the analysis of signal, confidence, prediction,
  flow and patterns fills. The 52-week fields, the prediction percentage, the summary
  text and the fundamental badges are left out.
\<close>

record AnalysisResult =
  symbol :: string
  price :: real
  rsi :: real
  macd :: real
  signal :: Signal
  confidenceScore :: jsnum
  predPrice :: real
  volRatio :: real
  bandarFlow :: "BandarFlowData option"
  candlePatterns :: "CandlestickPattern list"

text \<open>
  \<^verbatim>\<open>analyzeStock\<close>. Every error thrown inside is caught by the outer handler and
  thrown again with a prefixed message; a failed quote falls back to the latest close.
  The EMA50 series is computed, and may throw, but its value feeds only the trend word
  of the summary text.
\<close>

definition analyzeStock ::
  "rounding \<Rightarrow> indicator_lib \<Rightarrow> market_data \<Rightarrow> string \<Rightarrow> error + AnalysisResult" where
  "analyzeStock fl lib md tickerSymbol =
     (case getHistoricalData md tickerSymbol ''1d'' of
        Inl e \<Rightarrow> Inl (Failed e)
      | Inr historicalData \<Rightarrow>
          if length historicalData < 200 then Inl (Failed InsufficientData)
          else
            (let closes = map close historicalData;
                 volumes = map volume historicalData;
                 latestClose = closes ! (length closes - 1);
                 latestCandle = historicalData ! (length historicalData - 1);
                 currentPrice =
                   (case getCurrentPrice md tickerSymbol of Inr p \<Rightarrow> p | Inl e \<Rightarrow> latestClose)
             in case calculateRSI lib closes 14 of Inl e \<Rightarrow> Inl (Failed e) | Inr rsiValues \<Rightarrow>
               (case calculateMACD lib closes of Inl e \<Rightarrow> Inl (Failed e) | Inr macdData \<Rightarrow>
               (case calculateEMA lib closes 200 of Inl e \<Rightarrow> Inl (Failed e) | Inr ema200Values \<Rightarrow>
               (case calculateEMA lib closes 50 of Inl e \<Rightarrow> Inl (Failed e) | Inr ema50Values \<Rightarrow>
                 (let latestRSI = (case last_opt rsiValues of Some v \<Rightarrow> v | None \<Rightarrow> 50);
                      latestMACD = (case last_opt (MACD macdData) of Some v \<Rightarrow> v | None \<Rightarrow> 0);
                      latestMACDHistogram =
                        (case last_opt (histogram macdData) of Some v \<Rightarrow> v | None \<Rightarrow> 0);
                      latestEMA200 =
                        (case last_opt ema200Values of Some v \<Rightarrow> v | None \<Rightarrow> currentPrice);
                      last20Volumes = slice_last 20 volumes;
                      avgVolume20 = sum_reduce last20Volumes / real (length last20Volumes);
                      currentVolume = (case last_opt volumes of Some v \<Rightarrow> v | None \<Rightarrow> 0);
                      volRatio = (if avgVolume20 > 0 then currentVolume / avgVolume20 else 1);
                      volatility =
                        (if close latestCandle > 0
                         then (high latestCandle - low latestCandle) / close latestCandle
                         else 0.02);
                      sc = signalAndConfidence latestRSI currentPrice latestEMA200;
                      predPrice = predictPrice latestRSI latestMACDHistogram currentPrice volatility;
                      bandarFlow = bandarFlowOf fl historicalData;
                      candlePatterns = detectCandlePatterns historicalData
                  in Inr \<lparr> symbol = replace_first ''.JK'' [] (toUpperCase tickerSymbol),
                           price = currentPrice,
                           rsi = round2 latestRSI,
                           macd = round2 latestMACD,
                           signal = fst sc,
                           confidenceScore = js_round_num (snd sc),
                           predPrice = predPrice,
                           volRatio = round2 volRatio,
                           bandarFlow = bandarFlow,
                           candlePatterns =
                             (if length candlePatterns > 0 then candlePatterns else []) \<rparr>))))))"

section \<open>The intraday analyzer\<close>

datatype Bias = BULLISH | BEARISH | SIDEWAYS

text \<open>
  Step 2 of \<^verbatim>\<open>analyzeIntraday\<close>, the opening range. \<^verbatim>\<open>new Date()\<close> reads the clock of
  the process: the instant \<open>now\<close> is a parameter, as the calendar is.
\<close>

definition openingRange ::
  "calendar \<Rightarrow> int \<Rightarrow> StockData list \<Rightarrow> real \<Rightarrow> jsnum \<times> jsnum" where
  "openingRange cal now data5m currentPrice =
     (let todayKey = dateKey cal now;
          todayData = filter (\<lambda>item. dateKey cal (timestamp item) = todayKey) data5m
      in if length todayData \<ge> 3 then
           (let openingRangeData = take 3 todayData
            in (Math_max (map high openingRangeData), Math_min (map low openingRangeData)))
         else if length todayData > 0 then
           (Math_max (map high todayData), Math_min (map low todayData))
         else
           (let firstFew = take (min 3 (length data5m)) data5m
            in if length firstFew > 0 then
                 (Math_max (map high firstFew), Math_min (map low firstFew))
               else (Fin currentPrice, Fin currentPrice)))"

text \<open>Step 4, the bias.\<close>

definition intradayBias :: "real \<Rightarrow> real \<Rightarrow> jsnum \<Rightarrow> jsnum \<Rightarrow> Bias" where
  "intradayBias currentPrice currentVWAP orHigh orLow =
     (if currentPrice > currentVWAP \<and> js_gt (Fin currentPrice) orHigh then BULLISH
      else if currentPrice < currentVWAP \<and> js_lt (Fin currentPrice) orLow then BEARISH
      else SIDEWAYS)"

text \<open>
  The RSI of step 5 and the ATR of step 6, each on the 5-minute series with the period
  \<^verbatim>\<open>Math.min(14, Math.max(2, Math.floor(length / 2)))\<close>, each with its default when
  the series is too short, the library's series is empty or the computation throws.
\<close>

definition intradayRSI :: "indicator_lib \<Rightarrow> real list \<Rightarrow> real" where
  "intradayRSI lib closes5m =
     (let rsiPeriod = min 14 (max 2 (length closes5m div 2))
      in if length closes5m \<ge> rsiPeriod + 1 then
           (case calculateRSI lib closes5m rsiPeriod of
              Inr rsi5m \<Rightarrow> (case last_opt rsi5m of Some v \<Rightarrow> v | None \<Rightarrow> 50)
            | Inl e \<Rightarrow> 50)
         else 50)"

definition intradayATR :: "indicator_lib \<Rightarrow> StockData list \<Rightarrow> real \<Rightarrow> real" where
  "intradayATR lib data5m currentPrice =
     (let highs5m = map high data5m;
          lows5m = map low data5m;
          closes5m = map close data5m;
          atrPeriod = min 14 (max 2 (length data5m div 2))
      in if length data5m \<ge> atrPeriod + 1 then
           (case calculateATR lib highs5m lows5m closes5m atrPeriod of
              Inr atr5m \<Rightarrow>
                (case last_opt atr5m of Some v \<Rightarrow> v | None \<Rightarrow> currentPrice * 0.02)
            | Inl e \<Rightarrow> currentPrice * 0.02)
         else currentPrice * 0.02)"

text \<open>Step 7, the reasoning text.\<close>

definition intradayReason ::
  "real \<Rightarrow> real \<Rightarrow> real \<Rightarrow> jsnum \<Rightarrow> jsnum \<Rightarrow> Bias \<Rightarrow> string" where
  "intradayReason currentPrice currentVWAP volumeRatio orHigh orLow bias =
     (let reasonParts =
            [if currentPrice > currentVWAP then ''Price is currently above VWAP (Bullish)''
             else if currentPrice < currentVWAP then ''Price is currently below VWAP (Bearish)''
             else ''Price is near VWAP (Neutral)'']
          @ (if volumeRatio < 0.7 then [''but Volume is low'']
             else if volumeRatio > 1.3 then [''and Volume is high (Strong momentum)'']
             else [])
          @ [if js_gt (Fin currentPrice) orHigh
               then ''Price has broken above Opening Range High''
             else if js_lt (Fin currentPrice) orLow
               then ''Price has broken below Opening Range Low''
             else ''Price is within Opening Range'']
          @ [if bias = BULLISH \<and> js_gt (Fin currentPrice) orHigh
               then ''Consider BUY on pullback to VWAP''
             else if bias = BEARISH \<and> js_lt (Fin currentPrice) orLow
               then ''Consider SELL on bounce to VWAP''
             else ''Wait for a breakout above Opening Range High or below Opening Range Low'']
      in join ''. '' reasonParts @ ''.'')"

text \<open>The interface \<^verbatim>\<open>IntradayAnalysisResult\<close>.\<close>

record IntradayAnalysisResult =
  ticker :: string
  bias :: Bias
  score :: real
  entry :: real
  sl :: real
  tp1 :: real
  tp2 :: real
  vwapData :: "(int \<times> real) list"
  chartData :: "StockData list"
  orHigh :: jsnum
  orLow :: jsnum
  currentVWAP :: real
  lastTimestamp :: int
  reasonText :: string

text \<open>
  \<^verbatim>\<open>analyzeIntraday\<close>. The 15-minute series is only tested for emptiness. The score
  starts at 50 and takes its four adjustments in the order of the source.
\<close>

definition analyzeIntraday ::
  "indicator_lib \<Rightarrow> market_data \<Rightarrow> calendar \<Rightarrow> int \<Rightarrow> string
     \<Rightarrow> error + IntradayAnalysisResult" where
  "analyzeIntraday lib md cal now tickerSymbol =
     (case getIntradayData md tickerSymbol of
        Inl e \<Rightarrow> Inl (Failed e)
      | Inr (data5m, data15m) \<Rightarrow>
          if length data5m = 0 then Inl (Failed NoData)
          else if length data15m = 0 then Inl (Failed NoData)
          else
            (let currentPrice =
                   (case getCurrentPrice md tickerSymbol of
                      Inr p \<Rightarrow> p
                    | Inl e \<Rightarrow> close (data5m ! (length data5m - 1)));
                 orRange = openingRange cal now data5m currentPrice;
                 orHigh = fst orRange;
                 orLow = snd orRange;
                 sessionVWAP = calculateSessionVWAP cal data5m;
                 vwapData =
                   map (\<lambda>(item, index).
                          (timestamp item,
                           if index < length sessionVWAP then sessionVWAP ! index
                           else close item))
                     (zip data5m [0..<length data5m]);
                 currentVWAP =
                   (if length vwapData > 0 then snd (vwapData ! (length vwapData - 1))
                    else currentPrice);
                 bias = intradayBias currentPrice currentVWAP orHigh orLow;
                 score0 = 50 + (if bias = BULLISH then 20 else 0);
                 closes5m = map close data5m;
                 latestRSI = intradayRSI lib closes5m;
                 score1 = score0 - (if latestRSI > 70 then 10 else 0);
                 score2 = score1 + (if latestRSI < 30 \<and> bias = BULLISH then 10 else 0);
                 volumes5m = map volume data5m;
                 avgVolume = sum_reduce volumes5m / real (length volumes5m);
                 latestVolume = (case last_opt volumes5m of Some v \<Rightarrow> v | None \<Rightarrow> 0);
                 score3 = score2 + (if latestVolume > avgVolume then 20 else 0);
                 score = max 0 (min 99 score3);
                 latestATR = intradayATR lib data5m currentPrice;
                 entry = currentPrice;
                 sl = entry - (2 * latestATR);
                 tp1 = entry + (2 * latestATR);
                 tp2 = entry + (4 * latestATR);
                 volumeRatio = (if avgVolume > 0 then latestVolume / avgVolume else 1);
                 reasonText = intradayReason currentPrice currentVWAP volumeRatio orHigh orLow bias;
                 lastTimestamp =
                   (if length data5m > 0 then timestamp (data5m ! (length data5m - 1)) else now)
             in Inr \<lparr> ticker = replace_first ''.JK'' [] (toUpperCase tickerSymbol),
                      bias = bias,
                      score = js_round score,
                      entry = js_round entry,
                      sl = js_round sl,
                      tp1 = js_round tp1,
                      tp2 = js_round tp2,
                      vwapData = vwapData,
                      chartData = data5m,
                      orHigh = js_round_num orHigh,
                      orLow = js_round_num orLow,
                      currentVWAP = js_round currentVWAP,
                      lastTimestamp = lastTimestamp,
                      reasonText = reasonText \<rparr>))"

section \<open>The comparison service\<close>

datatype Winner = A | B | TIE

text \<open>The interface \<^verbatim>\<open>FundamentalData\<close>: every field may be absent.\<close>

record FundamentalData =
  marketCap :: "real option"
  trailingPE :: "real option"
  priceToBook :: "real option"
  trailingEps :: "real option"
  dividendYield :: "real option"

text \<open>
  \<^verbatim>\<open>determineValuationWinner\<close>. An absent field becomes \<^verbatim>\<open>Infinity\<close> through \<^verbatim>\<open>??\<close>,
  and the tests against \<^verbatim>\<open>Infinity\<close> are the strict \<^verbatim>\<open>===\<close> and \<^verbatim>\<open>!==\<close>.
\<close>

definition determineValuationWinner :: "FundamentalData \<Rightarrow> FundamentalData \<Rightarrow> Winner" where
  "determineValuationWinner fundamentalA fundamentalB =
     (let peA = (case trailingPE fundamentalA of Some v \<Rightarrow> Fin v | None \<Rightarrow> PInf);
          pbvA = (case priceToBook fundamentalA of Some v \<Rightarrow> Fin v | None \<Rightarrow> PInf);
          peB = (case trailingPE fundamentalB of Some v \<Rightarrow> Fin v | None \<Rightarrow> PInf);
          pbvB = (case priceToBook fundamentalB of Some v \<Rightarrow> Fin v | None \<Rightarrow> PInf);
          scoreA = (if \<not> js_eq peA PInf then peA else pbvA);
          scoreB = (if \<not> js_eq peB PInf then peB else pbvB)
      in if js_eq scoreA PInf \<and> js_eq scoreB PInf then TIE
         else if js_eq scoreA PInf then B
         else if js_eq scoreB PInf then A
         else if js_lt scoreA scoreB then A
         else if js_lt scoreB scoreA then B
         else TIE)"

text \<open>
  The valuation rule as the specification words it: the score of a side is its
  trailing PE if present, else its price-to-book, else missing; two missing scores
  tie, one missing score loses, and otherwise the lower score wins.
\<close>

definition valuation_score :: "FundamentalData \<Rightarrow> real option" where
  "valuation_score f = (case trailingPE f of Some pe \<Rightarrow> Some pe | None \<Rightarrow> priceToBook f)"

fun valuation_spec :: "real option \<Rightarrow> real option \<Rightarrow> Winner" where
  "valuation_spec None None = TIE"
| "valuation_spec None (Some b) = B"
| "valuation_spec (Some a) None = A"
| "valuation_spec (Some a) (Some b) = (if a < b then A else if b < a then B else TIE)"

section \<open>The market scan\<close>

text \<open>
  The objects that flow through the scan: the result object of a successful analysis,
  the object the per-ticker handler builds from a failure (a symbol, zeroed indicator
  fields and the key \<^verbatim>\<open>error\<close>), and the object \<^verbatim>\<open>{ success: false, error }\<close> that
  \<^verbatim>\<open>processInBatches\<close> substitutes for a rejected promise.
\<close>

datatype scan_record =
    Analysis AnalysisResult
  | ErrorRecord string error
  | Rejected error

text \<open>The tests \<^verbatim>\<open>'symbol' in result\<close> and \<^verbatim>\<open>'error' in result\<close>.\<close>

fun has_symbol :: "scan_record \<Rightarrow> bool" where
  "has_symbol (Analysis r) = True"
| "has_symbol (ErrorRecord s e) = True"
| "has_symbol (Rejected e) = False"

fun has_error :: "scan_record \<Rightarrow> bool" where
  "has_error (Analysis r) = False"
| "has_error (ErrorRecord s e) = True"
| "has_error (Rejected e) = True"

text \<open>The value under the key \<^verbatim>\<open>symbol\<close>, when the record has one.\<close>

fun record_symbol :: "scan_record \<Rightarrow> string option" where
  "record_symbol (Analysis r) = Some (symbol r)"
| "record_symbol (ErrorRecord s e) = Some s"
| "record_symbol (Rejected e) = None"

text \<open>
  \<^verbatim>\<open>processInBatches\<close>. A processor answers with a record or rejects. The loop index
  advances by the batch size; with a batch size of zero and items left it never
  advances, and the function does not return: that is the value \<open>None\<close>.
  \<^verbatim>\<open>Promise.all\<close> keeps the order of the batch.
\<close>

function processInBatches_loop ::
  "'a list \<Rightarrow> nat \<Rightarrow> ('a \<Rightarrow> error + scan_record) \<Rightarrow> nat \<Rightarrow> scan_record list
     \<Rightarrow> scan_record list option" where
  "processInBatches_loop items batchSize processor i results =
     (if i < length items then
        (if batchSize = 0 then None
         else
           (let batch = take batchSize (drop i items);
                batchResults =
                  map (\<lambda>item. case processor item of Inr r \<Rightarrow> r | Inl e \<Rightarrow> Rejected e) batch
            in processInBatches_loop items batchSize processor (i + batchSize)
                 (results @ batchResults)))
      else Some results)"
  by pat_completeness auto
termination
  by (relation "measure (\<lambda>(items, batchSize, processor, i, results). length items - i)") auto

declare processInBatches_loop.simps [simp del]

definition processInBatches ::
  "'a list \<Rightarrow> nat \<Rightarrow> ('a \<Rightarrow> error + scan_record) \<Rightarrow> scan_record list option" where
  "processInBatches items batchSize processor =
     processInBatches_loop items batchSize processor 0 []"

definition normalizeTickerForScan :: "string \<Rightarrow> string" where
  "normalizeTickerForScan tickerSymbol =
     (let upperTicker = trim (toUpperCase tickerSymbol)
      in if endsWith upperTicker ''.JK'' then upperTicker else upperTicker @ ''.JK'')"

definition DEFAULT_TICKERS :: "string list" where
  "DEFAULT_TICKERS =
     [''BBCA.JK'', ''TLKM.JK'', ''BMRI.JK'', ''ADRO.JK'', ''ASII.JK'', ''GOTO.JK'',
      ''UNVR.JK'', ''ICBP.JK'', ''BBNI.JK'', ''PGAS.JK'', ''BBRI.JK'', ''INDF.JK'',
      ''KLBF.JK'', ''SMGR.JK'', ''EXCL.JK'', ''ANTM.JK'', ''CPIN.JK'', ''INCO.JK'',
      ''MEDC.JK'', ''PTBA.JK'', ''BULL.JK'', ''BUMI.JK'', ''BELL.JK'', ''TOBA.JK'']"

text \<open>The tickers a scan works on, and the per-ticker function it hands to the batches.\<close>

definition tickersToScan :: "string list option \<Rightarrow> string list" where
  "tickersToScan selectedTickers =
     (case selectedTickers of
        Some ts \<Rightarrow> if length ts > 0 then map normalizeTickerForScan ts else DEFAULT_TICKERS
      | None \<Rightarrow> DEFAULT_TICKERS)"

definition scanProcessor ::
  "rounding \<Rightarrow> indicator_lib \<Rightarrow> market_data \<Rightarrow> string \<Rightarrow> error + scan_record" where
  "scanProcessor fl lib md tickerSymbol =
     (case analyzeStock fl lib md tickerSymbol of
        Inr r \<Rightarrow> Inr (Analysis r)
      | Inl e \<Rightarrow>
          (let codeWithoutSuffix = replace_first ''.JK'' [] tickerSymbol
           in Inr (ErrorRecord codeWithoutSuffix e)))"

text \<open>
  The answer of the server action \<^verbatim>\<open>scanMarket\<close>. The filter keeps the records that
  have the key \<^verbatim>\<open>symbol\<close> and lack the key \<^verbatim>\<open>error\<close>. Its type guard changes nothing at
  run time: the data of the answer are the very records that pass the predicate.
  \<^verbatim>\<open>revalidatePath\<close> belongs to the web framework and is called after the filter,
  inside the outer \<^verbatim>\<open>try\<close>; whether its call throws is a parameter, and the handler
  turns such an error into an answer without data.
\<close>

record ScanResponse =
  success :: bool
  data :: "scan_record list option"
  error :: "error option"

definition scanMarket ::
  "rounding \<Rightarrow> indicator_lib \<Rightarrow> market_data \<Rightarrow> (string \<Rightarrow> error option)
     \<Rightarrow> string list option \<Rightarrow> ScanResponse option" where
  "scanMarket fl lib md revalidatePath selectedTickers =
     (let CONCURRENCY_LIMIT = 5
      in case processInBatches (tickersToScan selectedTickers) CONCURRENCY_LIMIT
                (scanProcessor fl lib md) of
           None \<Rightarrow> None
         | Some results \<Rightarrow>
             (let successfulResults =
                    filter (\<lambda>result. has_symbol result \<and> \<not> has_error result) results
              in case revalidatePath ''/'' of
                   Some e \<Rightarrow> Some \<lparr> success = False, data = None, error = Some e \<rparr>
                 | None \<Rightarrow>
                     Some \<lparr> success = True, data = Some successfulResults,
                            error = None \<rparr>))"

section \<open>The quantities the properties speak of\<close>

text \<open>
  The current price of an analysis: the quote, or the close of the latest bar when the
  quote fails.
\<close>

definition currentPriceOf :: "market_data \<Rightarrow> string \<Rightarrow> StockData list \<Rightarrow> real" where
  "currentPriceOf md tickerSymbol bars =
     (case getCurrentPrice md tickerSymbol of
        Inr p \<Rightarrow> p
      | Inl e \<Rightarrow> close (bars ! (length bars - 1)))"

text \<open>The latest RSI(14): the last value of the library's series, 50 when it is empty.\<close>

definition latestRSI14 :: "indicator_lib \<Rightarrow> StockData list \<Rightarrow> real" where
  "latestRSI14 lib bars =
     (case last_opt (RSI_calculate lib (map close bars) 14) of Some v \<Rightarrow> v | None \<Rightarrow> 50)"

text \<open>
  The latest EMA200: the last value of the library's series, the current price when it
  is empty.
\<close>

definition latestEMA200Of :: "indicator_lib \<Rightarrow> market_data \<Rightarrow> string \<Rightarrow> StockData list \<Rightarrow> real" where
  "latestEMA200Of lib md tickerSymbol bars =
     (case last_opt (EMA_calculate lib (map close bars) 200) of
        Some v \<Rightarrow> v
      | None \<Rightarrow> currentPriceOf md tickerSymbol bars)"

text \<open>
  The classification of the bandar flow as the specification lists it: five rules in
  a fixed order, the first that matches decides. The two thresholds are the doubles of
  the literals 0.01 and 0.02.
\<close>

definition bandar_rules ::
  "real \<Rightarrow> real \<Rightarrow> jsnum \<Rightarrow> real \<Rightarrow> (bool \<times> BandarStatus) list" where
  "bandar_rules flat significant priceChangePercent obvChangePercent =
     [(js_lt (js_abs priceChangePercent) (Fin flat) \<and> obvChangePercent > significant,
         AKUMULASI),
      (js_lt (js_abs priceChangePercent) (Fin flat) \<and> obvChangePercent < - significant,
         DISTRIBUSI),
      (js_gt priceChangePercent (Fin 0) \<and> obvChangePercent > 0, MARKUP),
      (js_lt priceChangePercent (Fin 0) \<and> obvChangePercent < 0, MARKDOWN),
      (True, NEUTRAL_FLOW)]"

fun first_match :: "(bool \<times> BandarStatus) list \<Rightarrow> BandarStatus" where
  "first_match [] = NEUTRAL_FLOW"
| "first_match ((c, st) # rules) = (if c then st else first_match rules)"

text \<open>
  The status of a window as the specification computes it: the two slopes over the
  window, taken between its first and its last bar, with the OBV of the
  specification's running total; the price slope over the first close and the OBV
  slope over the absolute first OBV value, zero when that value is zero; then the
  rules. The quotients are JavaScript's: rounded, and infinite or not a number on a
  zero first close.
\<close>

definition bandar_status_spec :: "rounding \<Rightarrow> real list \<Rightarrow> real list \<Rightarrow> BandarStatus" where
  "bandar_status_spec fl closes volumes =
     (let n = length closes;
          priceSlope = fl (fl (closes ! (n - 1) - closes ! 0) / real n);
          obvSlope =
            fl (fl (obv_spec closes volumes (n - 1) - obv_spec closes volumes 0) / real n);
          priceChangePercent = js_fl fl (js_div priceSlope (closes ! 0));
          obvChangePercent =
            (if obv_spec closes volumes 0 = 0 then 0
             else fl (obvSlope / \<bar>obv_spec closes volumes 0\<bar>))
      in first_match (bandar_rules (fl 0.01) (fl 0.02) priceChangePercent obvChangePercent))"

section \<open>Example inputs\<close>

text \<open>Concrete bars, libraries and services at which the theorems below are run.\<close>

definition ex_hammer :: "StockData list" where
  "ex_hammer =
     [\<lparr> timestamp = 0, open_price = 100, high = 104, low = 99, close = 102, volume = 10 \<rparr>,
      \<lparr> timestamp = 86400000, open_price = 100, high = 101.4, low = 90, close = 101,
        volume = 10 \<rparr>]"

definition ex_bar :: "real \<Rightarrow> StockData" where
  "ex_bar c = \<lparr> timestamp = 0, open_price = c, high = c, low = c, close = c, volume = 1000 \<rparr>"

definition ex_lib :: "real \<Rightarrow> real \<Rightarrow> indicator_lib" where
  "ex_lib r e = \<lparr> RSI_calculate = (\<lambda>closes period. [r]),
                  MACD_calculate = (\<lambda>closes. [(Some 0, Some 0, Some 0)]),
                  ATR_calculate = (\<lambda>highs lows closes period. [2]),
                  EMA_calculate = (\<lambda>vals period. [e]) \<rparr>"

definition ex_market :: "StockData list \<Rightarrow> real \<Rightarrow> market_data" where
  "ex_market bars p = \<lparr> getHistoricalData = (\<lambda>tickerSymbol interval. Inr bars),
                        getCurrentPrice = (\<lambda>tickerSymbol. Inr p),
                        getIntradayData = (\<lambda>tickerSymbol. Inr (bars, bars)) \<rparr>"

definition ex_day_bars :: "StockData list" where
  "ex_day_bars =
     [\<lparr> timestamp = 0, open_price = 150, high = 200, low = 100, close = 150, volume = 1000 \<rparr>,
      \<lparr> timestamp = 86400000, open_price = 105, high = 110, low = 100, close = 105,
        volume = 1000 \<rparr>]"

definition ex_five_minute_bars :: "StockData list" where
  "ex_five_minute_bars =
     [\<lparr> timestamp = 0, open_price = 100, high = 101, low = 99, close = 100, volume = 1000 \<rparr>,
      \<lparr> timestamp = 300000, open_price = 100, high = 101, low = 100, close = 101,
        volume = 1000 \<rparr>,
      \<lparr> timestamp = 600000, open_price = 101, high = 101, low = 100, close = 100,
        volume = 1000 \<rparr>]"

definition ex_atr_lib :: "real \<Rightarrow> indicator_lib" where
  "ex_atr_lib a = (ex_lib 50 90) \<lparr> ATR_calculate := (\<lambda>highs lows closes period. [a]) \<rparr>"

definition ex_fundamentals :: "real option \<Rightarrow> FundamentalData" where
  "ex_fundamentals pe =
     \<lparr> marketCap = None, trailingPE = pe, priceToBook = None, trailingEps = None,
       dividendYield = None \<rparr>"

definition ex_scan_market :: market_data where
  "ex_scan_market =
     \<lparr> getHistoricalData =
         (\<lambda>tickerSymbol interval.
            if tickerSymbol = ''GOTO.JK'' then Inl (UpstreamFailure ''No data found'')
            else Inr (replicate 200 (ex_bar 100))),
       getCurrentPrice = (\<lambda>tickerSymbol. Inr 100),
       getIntradayData = (\<lambda>tickerSymbol. Inl NoData) \<rparr>"

definition ex_selected :: "string list" where
  "ex_selected = [''bbca'', ''TLKM'', ''goto'', ''BMRI.JK'', '' asii '']"

definition ex_rising_closes :: "real list" where
  "ex_rising_closes =
     [115, 116, 117, 118, 119, 120, 121, 122, 123, 124,
      125, 126, 127, 128, 129, 130, 131, 132, 133, 138]"

definition ex_rising_bars :: "StockData list" where
  "ex_rising_bars = replicate 180 (ex_bar 115) @ map ex_bar ex_rising_closes"

section \<open>Verification\<close>

subsection \<open>On-balance volume\<close>

lemma obv_loop_obv_spec:
  "length obv = i \<Longrightarrow> i \<le> length closes \<Longrightarrow>
   obv = map (obv_spec closes volumes) [0..<i] \<Longrightarrow>
   (0 < i \<Longrightarrow> cum = obv_spec closes volumes (i - 1)) \<Longrightarrow>
   obv_loop closes volumes i cum obv = map (obv_spec closes volumes) [0..<length closes]"
proof (induction closes volumes i cum obv rule: obv_loop.induct)
  case (1 closes volumes i cum obv)
  show ?case
  proof (cases "i < length closes")
    case False
    with "1.prems" have "i = length closes" by simp
    with False "1.prems" show ?thesis by (simp add: obv_loop.simps)
  next
    case True
    define cum' where "cum' =
               (if i = 0 then volumes ! i
                else if closes ! i > closes ! (i - 1) then cum + volumes ! i
                else if closes ! i < closes ! (i - 1) then cum - volumes ! i
                else cum)"
    have c: "cum' = obv_spec closes volumes i"
    proof (cases i)
      case 0
      then show ?thesis by (simp add: cum'_def)
    next
      case (Suc k)
      with "1.prems"(4) have "cum = obv_spec closes volumes k" by simp
      with Suc show ?thesis by (simp add: cum'_def)
    qed
    have "obv_loop closes volumes (Suc i) cum' (obv @ [cum']) =
            map (obv_spec closes volumes) [0..<length closes]"
      using True "1.prems" c
      by (intro "1.IH"[OF True cum'_def]) auto
    then show ?thesis
      using True by (subst obv_loop.simps) (simp add: cum'_def Let_def)
  qed
qed

lemma calculateOBV_eq:
  "length closes = length volumes \<Longrightarrow>
   calculateOBV closes volumes = Inr (map (obv_spec closes volumes) [0..<length closes])"
  by (cases "closes = []") (simp_all add: calculateOBV_def obv_loop_obv_spec)

text \<open>
  Claim C6. Arrays of different lengths make \<open>calculateOBV\<close> fail with the length
  mismatch error and yield no series. For non-empty arrays of equal length the series
  has one value per bar, starts at the first volume, and each later step is the bar's
  volume when the close rose, its negation when the close fell, and zero when the
  close is unchanged.
\<close>

theorem calculateOBV_running_total:
  "(length closes \<noteq> length volumes \<longrightarrow> calculateOBV closes volumes = Inl LengthMismatch) \<and>
   (length closes = length volumes \<and> closes \<noteq> [] \<longrightarrow>
      (\<exists>obv. calculateOBV closes volumes = Inr obv \<and> length obv = length closes \<and>
         obv ! 0 = volumes ! 0 \<and>
         (\<forall>i. 0 < i \<and> i < length closes \<longrightarrow>
            obv ! i - obv ! (i - 1) =
              (if closes ! i > closes ! (i - 1) then volumes ! i
               else if closes ! i < closes ! (i - 1) then - volumes ! i
               else 0))))"
proof (intro conjI impI)
  assume "length closes \<noteq> length volumes"
  then show "calculateOBV closes volumes = Inl LengthMismatch"
    by (simp add: calculateOBV_def)
next
  assume a: "length closes = length volumes \<and> closes \<noteq> []"
  let ?obv = "map (obv_spec closes volumes) [0..<length closes]"
  have step: "?obv ! i - ?obv ! (i - 1) =
              (if closes ! i > closes ! (i - 1) then volumes ! i
               else if closes ! i < closes ! (i - 1) then - volumes ! i
               else 0)" if "0 < i" "i < length closes" for i
  proof -
    from that obtain k where k: "i = Suc k" by (cases i) auto
    with that show ?thesis by simp
  qed
  from a have "calculateOBV closes volumes = Inr ?obv" by (simp add: calculateOBV_eq)
  moreover from a have "closes \<noteq> []" ..
  then have "0 < length closes" by simp
  then have "?obv ! 0 = volumes ! 0" by (simp del: upt_conv_Cons)
  moreover have "length ?obv = length closes" by simp
  ultimately show "\<exists>obv. calculateOBV closes volumes = Inr obv \<and> length obv = length closes \<and>
         obv ! 0 = volumes ! 0 \<and>
         (\<forall>i. 0 < i \<and> i < length closes \<longrightarrow>
            obv ! i - obv ! (i - 1) =
              (if closes ! i > closes ! (i - 1) then volumes ! i
               else if closes ! i < closes ! (i - 1) then - volumes ! i
               else 0))"
    using step by blast
qed

theorem calculateOBV_running_total_witness:
  "calculateOBV [10, 11, 11, 9] [100, 200, 300, 400] = Inr [100, 300, 300, -100] \<and>
   calculateOBV [10, 11] [100] = Inl LengthMismatch"
proof -
  let ?c = "[10, 11, 11, 9] :: real list" and ?v = "[100, 200, 300, 400] :: real list"
  from calculateOBV_running_total [of ?c ?v]
  obtain obv where o: "calculateOBV ?c ?v = Inr obv" "length obv = 4" "obv ! 0 = 100"
    and s: "\<forall>i. 0 < i \<and> i < 4 \<longrightarrow> obv ! i - obv ! (i - 1) =
              (if ?c ! i > ?c ! (i - 1) then ?v ! i
               else if ?c ! i < ?c ! (i - 1) then - ?v ! i else 0)"
    by auto
  from s[rule_format, of 1] s[rule_format, of 2] s[rule_format, of 3] o(3)
  have "obv ! 1 = 300" "obv ! 2 = 300" "obv ! 3 = -100" by simp_all
  with o have "obv = [100, 300, 300, -100]"
    by (intro nth_equalityI) (auto simp: less_Suc_eq numeral_eq_Suc)
  moreover from calculateOBV_running_total [of "[10, 11]" "[100]"]
  have "calculateOBV [10, 11] [100] = Inl LengthMismatch" by simp
  ultimately show ?thesis using o by simp
qed

subsection \<open>VWAP on zero volume\<close>

lemma vwap_loop_zero_volume:
  "length vwap = i \<Longrightarrow> i \<le> length closes \<Longrightarrow>
   \<forall>j < length closes. volumes ! j = 0 \<Longrightarrow>
   cumVol = 0 \<Longrightarrow>
   vwap = map (\<lambda>j. (highs ! j + lows ! j + closes ! j) / 3) [0..<i] \<Longrightarrow>
   vwap_loop highs lows closes volumes i cumTPV cumVol vwap =
     map (\<lambda>j. (highs ! j + lows ! j + closes ! j) / 3) [0..<length closes]"
proof (induction highs lows closes volumes i cumTPV cumVol vwap rule: vwap_loop.induct)
  case (1 highs lows closes volumes i cumTPV cumVol vwap)
  show ?case
  proof (cases "i < length closes")
    case False
    with "1.prems" have "i = length closes" by simp
    with "1.prems" show ?thesis by (simp add: vwap_loop.simps)
  next
    case True
    with "1.prems" have v: "volumes ! i = 0" by simp
    have "vwap_loop highs lows closes volumes (Suc i)
            (cumTPV + (highs ! i + lows ! i + closes ! i) / 3 * volumes ! i)
            (cumVol + volumes ! i)
            (vwap @ [if cumVol + volumes ! i = 0 then (highs ! i + lows ! i + closes ! i) / 3
                     else (cumTPV + (highs ! i + lows ! i + closes ! i) / 3 * volumes ! i) /
                          (cumVol + volumes ! i)]) =
          map (\<lambda>j. (highs ! j + lows ! j + closes ! j) / 3) [0..<length closes]"
      using True "1.prems" v
      by (intro "1.IH"[OF True refl refl refl refl]) auto
    then show ?thesis
      using True by (subst vwap_loop.simps) (simp add: Let_def)
  qed
qed

text \<open>
  Claim C7. On arrays of equal length whose volumes are all zero, \<open>calculateVWAP\<close>
  returns the series of typical prices \<open>(high + low + close) / 3\<close>: the cumulative
  volume stays zero, so every iteration takes the branch that pushes the typical price
  and the quotient is never formed. Every value is therefore a finite number.
\<close>

theorem calculateVWAP_zero_volume:
  assumes "length highs = length lows" "length lows = length closes"
    "length closes = length volumes" "\<forall>v \<in> set volumes. v = 0"
  shows "calculateVWAP highs lows closes volumes =
           Inr (map (\<lambda>i. (highs ! i + lows ! i + closes ! i) / 3) [0..<length closes])"
proof -
  from assms have "\<forall>j < length closes. volumes ! j = 0" by simp
  then have "vwap_loop highs lows closes volumes 0 0 0 [] =
          map (\<lambda>j. (highs ! j + lows ! j + closes ! j) / 3) [0..<length closes]"
    by (intro vwap_loop_zero_volume) simp_all
  with assms show ?thesis by (simp add: calculateVWAP_def)
qed

theorem calculateVWAP_zero_volume_witness:
  "calculateVWAP [12, 15] [9, 12] [9, 15] [0, 0] = Inr [10, 14]"
  using calculateVWAP_zero_volume [of "[12, 15]" "[9, 12]" "[9, 15]" "[0, 0]"]
  by (simp add: upt_conv_Cons)

subsection \<open>Candlestick patterns\<close>

text \<open>
  Claim C10. Whatever the bars, the detected patterns never hold both Hammer and
  Shooting Star: on the last bar the first needs an upper shadow below half the body
  and the second an upper shadow above twice the body, and a body is never negative.
\<close>

theorem hammer_excludes_shooting_star:
  "\<not> (Hammer \<in> set (detectCandlePatterns historicalData) \<and>
      ShootingStar \<in> set (detectCandlePatterns historicalData))"
proof
  assume a: "Hammer \<in> set (detectCandlePatterns historicalData) \<and>
      ShootingStar \<in> set (detectCandlePatterns historicalData)"
  define cur where
    "cur = slice_last 5 historicalData ! (length (slice_last 5 historicalData) - 1)"
  from a have "upperShadow cur < bodySize cur * 0.5" "upperShadow cur > bodySize cur * 2"
    by (auto simp: detectCandlePatterns_def Let_def cur_def split: if_splits)
  moreover have "0 \<le> bodySize cur" by (simp add: bodySize_def)
  ultimately show False by simp
qed

theorem hammer_excludes_shooting_star_witness:
  "Hammer \<in> set (detectCandlePatterns ex_hammer) \<and>
   ShootingStar \<notin> set (detectCandlePatterns ex_hammer)"
proof -
  have "detectCandlePatterns ex_hammer = [Hammer, Doji]"
    by (simp add: detectCandlePatterns_def ex_hammer_def slice_last_def Let_def isBullish_def
        isBearish_def bodySize_def rangeSize_def upperShadow_def lowerShadow_def)
  then have "Hammer \<in> set (detectCandlePatterns ex_hammer)" by simp
  with hammer_excludes_shooting_star [of ex_hammer] show ?thesis by blast
qed

subsection \<open>The swing analyzer\<close>

lemma analyzeStock_result:
  assumes h: "getHistoricalData md t ''1d'' = Inr bars" and n: "200 \<le> length bars"
  shows "\<exists>r. analyzeStock fl lib md t = Inr r \<and>
           symbol r = replace_first ''.JK'' [] (toUpperCase t) \<and>
           price r = currentPriceOf md t bars \<and>
           signal r = fst (signalAndConfidence (latestRSI14 lib bars) (currentPriceOf md t bars)
                             (latestEMA200Of lib md t bars)) \<and>
           confidenceScore r =
             js_round_num (snd (signalAndConfidence (latestRSI14 lib bars)
                (currentPriceOf md t bars) (latestEMA200Of lib md t bars))) \<and>
           bandarFlow r = bandarFlowOf fl bars \<and>
           candlePatterns r = detectCandlePatterns bars"
proof -
  from n have lt: "length bars - Suc 0 < length bars" by simp
  have c: "map close bars ! (length bars - Suc 0) = close (bars ! (length bars - Suc 0))"
    using lt by (rule nth_map)
  show ?thesis
    using h n c
    by (simp add: analyzeStock_def calculateRSI_def calculateMACD_def calculateEMA_def Let_def
        currentPriceOf_def latestRSI14_def latestEMA200Of_def
        split: sum.split option.split)
qed

text \<open>
  Claim C1. When the provider returns at least 200 bars the analysis succeeds, and its
  signal is BUY exactly when the latest RSI(14) is below 30 and the current price is
  above the latest EMA200, SELL exactly when the latest RSI is above 70 and the BUY
  condition is false, and NEUTRAL exactly in every other case.
\<close>

theorem analyzeStock_signal:
  assumes "getHistoricalData md t ''1d'' = Inr bars" and "200 \<le> length bars"
  shows "\<exists>r. analyzeStock fl lib md t = Inr r \<and>
     (let latestRSI = latestRSI14 lib bars;
          currentPrice = currentPriceOf md t bars;
          latestEMA200 = latestEMA200Of lib md t bars;
          buy = (latestRSI < 30 \<and> currentPrice > latestEMA200)
      in (signal r = BUY \<longleftrightarrow> buy) \<and>
         (signal r = SELL \<longleftrightarrow> latestRSI > 70 \<and> \<not> buy) \<and>
         (signal r = NEUTRAL \<longleftrightarrow> \<not> buy \<and> \<not> (latestRSI > 70 \<and> \<not> buy)))"
proof -
  from analyzeStock_result [OF assms, of fl lib] obtain r where
    r: "analyzeStock fl lib md t = Inr r"
    and s: "signal r = fst (signalAndConfidence (latestRSI14 lib bars) (currentPriceOf md t bars)
                             (latestEMA200Of lib md t bars))"
    by blast
  from s show ?thesis
    unfolding r by (auto simp: signalAndConfidence_def Let_def)
qed

theorem analyzeStock_signal_witness:
  "map_sum id signal (analyzeStock fl_double (ex_lib 25 90) (ex_market (replicate 200 (ex_bar 100)) 100) ''BBCA'') = Inr BUY \<and>
   map_sum id signal (analyzeStock fl_double (ex_lib 75 90) (ex_market (replicate 200 (ex_bar 100)) 100) ''BBCA'') = Inr SELL \<and>
   map_sum id signal (analyzeStock fl_double (ex_lib 25 110) (ex_market (replicate 200 (ex_bar 100)) 100) ''BBCA'') = Inr NEUTRAL"
proof -
  have "map_sum id signal (analyzeStock fl_double (ex_lib rs e) (ex_market (replicate 200 (ex_bar 100)) 100) ''BBCA'')
      = Inr (if rs < 30 \<and> 100 > e then BUY else if rs > 70 then SELL else NEUTRAL)" for rs e
    using analyzeStock_signal [of "ex_market (replicate 200 (ex_bar 100)) 100" "''BBCA''"
      "replicate 200 (ex_bar 100)" fl_double "ex_lib rs e"]
    by (auto simp: ex_market_def ex_lib_def latestRSI14_def currentPriceOf_def latestEMA200Of_def
        last_opt_def Let_def)
  then show ?thesis by simp
qed

subsection \<open>Confidence\<close>







subsection \<open>Bandar flow\<close>

lemma length_slice_last: "n \<le> length xs \<Longrightarrow> length (slice_last n xs) = n"
  by (simp add: slice_last_def)

lemma first_match_bandar_rules:
  "first_match (bandar_rules flat significant p ob) =
     (if js_lt (js_abs p) (Fin flat) \<and> ob > significant then AKUMULASI
      else if js_lt (js_abs p) (Fin flat) \<and> ob < - significant then DISTRIBUSI
      else if js_gt p (Fin 0) \<and> ob > 0 then MARKUP
      else if js_lt p (Fin 0) \<and> ob < 0 then MARKDOWN
      else NEUTRAL_FLOW)"
  by (simp add: bandar_rules_def)

lemma bandarFlowOf_spec:
  assumes "20 \<le> length bars"
  shows "\<exists>bf. bandarFlowOf fl bars = Some bf \<and>
           status bf = bandar_status_spec fl (map close (slice_last 20 bars))
                         (map volume (slice_last 20 bars))"
proof -
  let ?w = "slice_last 20 bars"
  let ?c = "map close ?w" and ?v = "map volume ?w"
  from assms have l: "length ?w = 20" by (rule length_slice_last)
  then have o: "calculateOBV ?c ?v = Inr (map (obv_spec ?c ?v) [0..<20])"
    using calculateOBV_eq [of ?c ?v] by simp
  have n: "map (obv_spec ?c ?v) [0..<20] ! (20 - 1) = obv_spec ?c ?v (20 - 1)"
    "map (obv_spec ?c ?v) [0..<20] ! 0 = obv_spec ?c ?v 0"
    by (simp_all del: upt_conv_Cons upt_Suc add: nth_map_upt)
  have a: "(20::nat) \<le> 20" by simp
  have i: "(if x \<noteq> 0 then y else 0) = (if x = 0 then 0 else y)" for x y :: real by simp
  have "bandarFlowOf fl bars =
      Some \<lparr> status = bandar_status_spec fl ?c ?v,
             priceSlope = fl (fl (?c ! (20 - 1) - ?c ! 0) / real (20::nat)),
             obvSlope = fl (fl (obv_spec ?c ?v (20 - 1) - obv_spec ?c ?v 0) / real (20::nat)) \<rparr>"
    unfolding bandarFlowOf_def bandar_status_spec_def Let_def o first_match_bandar_rules
    by (simp only: l n sum.case length_map length_upt a i if_True diff_zero)
  then show ?thesis by simp
qed

text \<open>
  Claim C5. With at least 200 bars the trailing window holds exactly 20 bars, and the
  bandar-flow status of the analysis is the status the specification computes on that
  window: the first matching rule of the fixed list AKUMULASI, DISTRIBUSI, MARKUP,
  MARKDOWN, NEUTRAL, where \<open>priceChangePercent\<close> is the price slope over the first
  close and \<open>obvChangePercent\<close> is the OBV slope over the absolute first OBV value,
  zero when that value is zero. This holds for every rounding of the arithmetic, that
  of the machine included.
\<close>

theorem analyzeStock_bandar_status:
  assumes "getHistoricalData md t ''1d'' = Inr bars" and "200 \<le> length bars"
  shows "\<exists>r bf. analyzeStock fl lib md t = Inr r \<and> bandarFlow r = Some bf \<and>
    length (slice_last 20 bars) = 20 \<and>
    status bf =
      bandar_status_spec fl (map close (slice_last 20 bars)) (map volume (slice_last 20 bars))"
proof -
  from assms(2) have n: "20 \<le> length bars" by simp
  from analyzeStock_result [OF assms, of fl lib] obtain r where
    r: "analyzeStock fl lib md t = Inr r" and b: "bandarFlow r = bandarFlowOf fl bars"
    by blast
  from bandarFlowOf_spec [OF n, of fl] obtain bf where
    "bandarFlowOf fl bars = Some bf"
    "status bf = bandar_status_spec fl (map close (slice_last 20 bars))
                   (map volume (slice_last 20 bars))"
    by blast
  with r b length_slice_last [OF n] show ?thesis by simp
qed

text \<open>
  A window of whole closes on the threshold: 115 rising by one to 133, then 138, every
  volume 1000. In double precision the price change is \<open>23 / 20 / 115\<close> rounded twice,
  the double just below that of 0.01, so the first rule fires.
\<close>

lemma ex_rising_window:
  "slice_last 20 ex_rising_bars = map ex_bar ex_rising_closes"
  by (simp add: slice_last_def ex_rising_bars_def ex_rising_closes_def)

lemma ex_rising_series:
  "map close (map ex_bar ex_rising_closes) = ex_rising_closes"
  "map volume (map ex_bar ex_rising_closes) = replicate 20 1000"
  by (simp_all add: ex_bar_def ex_rising_closes_def numeral_eq_Suc)

lemma ex_rising_obv:
  "obv_spec ex_rising_closes (replicate 20 1000) 19 = 20000"
  "obv_spec ex_rising_closes (replicate 20 1000) 0 = 1000"
  by code_simp+

lemma ex_rising_status_double:
  "bandar_status_spec fl_double ex_rising_closes (replicate 20 1000) = AKUMULASI"
proof -
  have c: "length ex_rising_closes = 20" "(20::nat) - 1 = 19" "ex_rising_closes ! 19 = 138"
    "ex_rising_closes ! 0 = 115"
    by (simp_all add: ex_rising_closes_def)
  show ?thesis
    unfolding bandar_status_spec_def Let_def c ex_rising_obv first_match_bandar_rules
    by (simp add: js_div_def js_gt_def fl_double_def ulp_of.simps round_half_even_def Let_def)
qed

text \<open>
  In exact arithmetic the same price change is \<open>1 / 100\<close>, not below the threshold,
  and the third rule would decide: the rounding is part of the classification.
\<close>

lemma ex_rising_status_exact:
  "bandar_status_spec (\<lambda>x. x) ex_rising_closes (replicate 20 1000) = MARKUP"
proof -
  have c: "length ex_rising_closes = 20" "(20::nat) - 1 = 19" "ex_rising_closes ! 19 = 138"
    "ex_rising_closes ! 0 = 115"
    by (simp_all add: ex_rising_closes_def)
  show ?thesis
    unfolding bandar_status_spec_def Let_def c ex_rising_obv first_match_bandar_rules
    by (simp add: js_div_def js_gt_def)
qed

theorem analyzeStock_bandar_status_witness:
  "map_sum id (map_option status \<circ> bandarFlow)
     (analyzeStock fl_double (ex_lib 50 90) (ex_market ex_rising_bars 138) ''BBCA'')
   = Inr (Some AKUMULASI)"
proof -
  have l: "200 \<le> length ex_rising_bars"
    by (simp add: ex_rising_bars_def ex_rising_closes_def)
  from analyzeStock_bandar_status [of "ex_market ex_rising_bars 138" "''BBCA''" ex_rising_bars
      fl_double "ex_lib 50 90"] l
  obtain r bf where "analyzeStock fl_double (ex_lib 50 90) (ex_market ex_rising_bars 138) ''BBCA'' = Inr r"
    "bandarFlow r = Some bf" "status bf = AKUMULASI"
    unfolding ex_rising_window ex_rising_series ex_rising_status_double
    by (auto simp: ex_market_def)
  then show ?thesis by simp
qed

subsection \<open>The intraday analyzer\<close>

text \<open>
  Claim C3. Whenever both bar series are present the intraday analysis succeeds, and
  with \<open>entry\<close> the current price and ATR the value the analyzer uses (the latest ATR
  of the 5-minute series, or two percent of the price), the plan it returns is the
  rounded entry, the rounded \<open>entry - 2 * ATR\<close>, the rounded \<open>entry + 2 * ATR\<close> and the
  rounded \<open>entry + 4 * ATR\<close>. This holds for every ATR, positive ones included.
\<close>

theorem analyzeIntraday_plan:
  assumes "getIntradayData md t = Inr (data5m, data15m)" and "data5m \<noteq> []"
    and "data15m \<noteq> []"
  shows "\<exists>r. analyzeIntraday lib md cal now t = Inr r \<and>
     (let price0 = currentPriceOf md t data5m;
          atr = intradayATR lib data5m price0
      in entry r = js_round price0 \<and>
         sl r = js_round (price0 - 2 * atr) \<and>
         tp1 r = js_round (price0 + 2 * atr) \<and>
         tp2 r = js_round (price0 + 4 * atr))"
proof -
  from assms(2,3) have ne: "length data5m \<noteq> 0" "length data15m \<noteq> 0" by simp_all
  show ?thesis
  proof (cases "getCurrentPrice md t")
    case (Inl e)
    with assms(1) ne show ?thesis
      by (simp add: analyzeIntraday_def currentPriceOf_def Let_def)
  next
    case (Inr p)
    with assms(1) ne show ?thesis
      by (simp add: analyzeIntraday_def currentPriceOf_def Let_def)
  qed
qed

theorem analyzeIntraday_plan_witness:
  "map_sum id (\<lambda>r. (entry r, sl r, tp1 r, tp2 r))
     (analyzeIntraday (ex_atr_lib 0.3) (ex_market ex_five_minute_bars 100.4) utc_calendar 0
        ''BBCA'')
   = Inr (100, 100, 101, 102)"
proof -
  let ?md = "ex_market ex_five_minute_bars 100.4"
  have p: "currentPriceOf ?md ''BBCA'' ex_five_minute_bars = 100.4"
    by (simp add: currentPriceOf_def ex_market_def)
  have a: "intradayATR (ex_atr_lib 0.3) ex_five_minute_bars 100.4 = 0.3"
    by (simp add: intradayATR_def ex_atr_lib_def ex_lib_def ex_five_minute_bars_def
        calculateATR_def last_opt_def Let_def)
  from analyzeIntraday_plan [of ?md "''BBCA''" ex_five_minute_bars ex_five_minute_bars
      "ex_atr_lib 0.3" utc_calendar 0]
  show ?thesis
    unfolding p a Let_def
    by (auto simp: ex_market_def ex_five_minute_bars_def js_round_def)
qed

text \<open>
  Claim C4 says that two runs on the same bars and the same price give the same
  output, whatever the clock. The opening range is taken from the bars whose date is
  today's date: on the same two bars and the same quote a run on the second bar's day
  is BULLISH and a run one day later is SIDEWAYS.
\<close>

theorem analyzeIntraday_clock_counterexample:
  "map_sum id bias
     (analyzeIntraday (ex_lib 50 90) (ex_market ex_day_bars 120) utc_calendar 86400000 ''BBCA'')
     = Inr BULLISH \<and>
   map_sum id bias
     (analyzeIntraday (ex_lib 50 90) (ex_market ex_day_bars 120) utc_calendar 172800000 ''BBCA'')
     = Inr SIDEWAYS"
  by code_simp

text \<open>
  Claim C4, amended. The intraday computation is a function of the bar series, the
  current price and the local calendar date of the run: two runs on identical inputs
  whose clocks read the same date, in the same time zone, produce identical outputs.
\<close>

theorem analyzeIntraday_same_date:
  assumes "dateKey cal now1 = dateKey cal now2"
  shows "analyzeIntraday lib md cal now1 t = analyzeIntraday lib md cal now2 t"
  using assms
  by (simp add: analyzeIntraday_def openingRange_def Let_def split: sum.split prod.split)

theorem analyzeIntraday_same_date_witness:
  "analyzeIntraday (ex_lib 50 90) (ex_market ex_day_bars 120) utc_calendar 86400000 ''BBCA'' =
   analyzeIntraday (ex_lib 50 90) (ex_market ex_day_bars 120) utc_calendar 90000000 ''BBCA''"
proof -
  have "dateKey utc_calendar 86400000 = dateKey utc_calendar 90000000" by code_simp
  then show ?thesis by (rule analyzeIntraday_same_date)
qed

subsection \<open>Valuation\<close>

text \<open>
  Claim C8. For every pair of fundamental snapshots the valuation winner is the one
  the specification's rule gives: the score is the trailing PE if present, else the
  price-to-book, else missing; two missing scores tie, a single missing score loses,
  and otherwise the lower score wins. The witness runs the rule at PE 10 against PE 20.
\<close>

theorem determineValuationWinner_spec:
  "determineValuationWinner fundamentalA fundamentalB =
     valuation_spec (valuation_score fundamentalA) (valuation_score fundamentalB)"
  by (cases "trailingPE fundamentalA"; cases "priceToBook fundamentalA";
      cases "trailingPE fundamentalB"; cases "priceToBook fundamentalB")
     (simp_all add: determineValuationWinner_def valuation_score_def js_eq_def Let_def)

theorem determineValuationWinner_spec_witness:
  "determineValuationWinner (ex_fundamentals (Some 10)) (ex_fundamentals (Some 20)) = A \<and>
   determineValuationWinner (ex_fundamentals None) (ex_fundamentals None) = TIE \<and>
   determineValuationWinner (ex_fundamentals None) (ex_fundamentals (Some 20)) = B"
  using determineValuationWinner_spec [of "ex_fundamentals (Some 10)" "ex_fundamentals (Some 20)"]
    determineValuationWinner_spec [of "ex_fundamentals None" "ex_fundamentals None"]
    determineValuationWinner_spec [of "ex_fundamentals None" "ex_fundamentals (Some 20)"]
  by (simp add: valuation_score_def ex_fundamentals_def)

subsection \<open>The market scan\<close>

lemma processInBatches_loop_map:
  "0 < batchSize \<Longrightarrow>
   processInBatches_loop items batchSize processor i results =
     Some (results @
           map (\<lambda>item. case processor item of Inr r \<Rightarrow> r | Inl e \<Rightarrow> Rejected e) (drop i items))"
proof (induction items batchSize processor i results rule: processInBatches_loop.induct)
  case (1 items batchSize processor i results)
  let ?f = "\<lambda>item. case processor item of Inr r \<Rightarrow> r | Inl e \<Rightarrow> Rejected e"
  show ?case
  proof (cases "i < length items")
    case False
    then show ?thesis by (simp add: processInBatches_loop.simps)
  next
    case True
    from "1.prems" have nz: "batchSize \<noteq> 0" by simp
    have "processInBatches_loop items batchSize processor (i + batchSize)
            (results @ map ?f (take batchSize (drop i items))) =
          Some ((results @ map ?f (take batchSize (drop i items))) @
                map ?f (drop (i + batchSize) items))"
      by (rule "1.IH" [OF True nz refl refl "1.prems"])
    moreover have "take batchSize (drop i items) @ drop (i + batchSize) items = drop i items"
      by (metis add.commute append_take_drop_id drop_drop)
    then have "map ?f (take batchSize (drop i items)) @ map ?f (drop (i + batchSize) items) =
               map ?f (drop i items)"
      by (metis map_append)
    ultimately show ?thesis
      using True nz by (subst processInBatches_loop.simps) (simp add: Let_def)
  qed
qed

lemma scanProcessor_total:
  "scanProcessor fl lib md t =
     Inr (case analyzeStock fl lib md t of
            Inr r \<Rightarrow> Analysis r
          | Inl e \<Rightarrow> ErrorRecord (replace_first ''.JK'' [] t) e)"
  by (simp add: scanProcessor_def Let_def split: sum.split)

lemma successful_filter:
  "filter (\<lambda>result. has_symbol result \<and> \<not> has_error result)
     (map (\<lambda>t. case analyze t of
                  Inr r \<Rightarrow> Analysis r
                | Inl e \<Rightarrow> ErrorRecord (code t) e) ts) =
   map Analysis (List.map_filter (\<lambda>t. case analyze t of Inr r \<Rightarrow> Some r | Inl e \<Rightarrow> None) ts)"
  by (induction ts) (auto simp: List.map_filter_simps split: sum.split)

text \<open>
  Claim C9, amended. For every selection of tickers the batches yield one record per
  ticker, in order: the analysis result, or the error-tagged record of its failure; no
  failure is raised. The scan always returns an answer. When the revalidation call
  returns, the answer is a success whose data are exactly the result records of the
  tickers whose analysis succeeded, in order, the failed ones omitted; when that call
  throws, the answer is a failure that carries its error and no data.
\<close>

theorem scanMarket_isolates_failures:
  "processInBatches (tickersToScan selectedTickers) 5 (scanProcessor fl lib md) =
     Some (map (\<lambda>t. case analyzeStock fl lib md t of
                       Inr r \<Rightarrow> Analysis r
                     | Inl e \<Rightarrow> ErrorRecord (replace_first ''.JK'' [] t) e)
             (tickersToScan selectedTickers)) \<and>
   scanMarket fl lib md revalidatePath selectedTickers =
     Some (case revalidatePath ''/'' of
             None \<Rightarrow>
               \<lparr> success = True,
                 data = Some (map Analysis
                                (List.map_filter
                                   (\<lambda>t. case analyzeStock fl lib md t of
                                          Inr r \<Rightarrow> Some r
                                        | Inl e \<Rightarrow> None)
                                   (tickersToScan selectedTickers))),
                 error = None \<rparr>
           | Some e \<Rightarrow> \<lparr> success = False, data = None, error = Some e \<rparr>)"
proof -
  let ?ts = "tickersToScan selectedTickers"
  let ?g = "\<lambda>t. case analyzeStock fl lib md t of
                       Inr r \<Rightarrow> Analysis r
                     | Inl e \<Rightarrow> ErrorRecord (replace_first ''.JK'' [] t) e"
  have p: "processInBatches ?ts 5 (scanProcessor fl lib md) = Some (map ?g ?ts)"
    unfolding processInBatches_def
    by (subst processInBatches_loop_map) (simp_all add: scanProcessor_total)
  have "scanMarket fl lib md revalidatePath selectedTickers =
     Some (case revalidatePath ''/'' of
             None \<Rightarrow>
               \<lparr> success = True,
                 data = Some (map Analysis
                                (List.map_filter
                                   (\<lambda>t. case analyzeStock fl lib md t of
                                          Inr r \<Rightarrow> Some r
                                        | Inl e \<Rightarrow> None) ?ts)),
                 error = None \<rparr>
           | Some e \<Rightarrow> \<lparr> success = False, data = None, error = Some e \<rparr>)"
    unfolding scanMarket_def Let_def p
    by (cases "revalidatePath ''/''") (simp_all add: successful_filter)
  with p show ?thesis by (rule conjI)
qed

lemma ex_scan_analysis:
  "t \<noteq> ''GOTO.JK'' \<Longrightarrow>
     \<exists>r. analyzeStock fl lib ex_scan_market t = Inr r \<and>
         symbol r = replace_first ''.JK'' [] (toUpperCase t)"
  "analyzeStock fl lib ex_scan_market ''GOTO.JK'' =
     Inl (Failed (UpstreamFailure ''No data found''))"
proof -
  assume "t \<noteq> ''GOTO.JK''"
  then have "getHistoricalData ex_scan_market t ''1d'' = Inr (replicate 200 (ex_bar 100))"
    by (simp add: ex_scan_market_def)
  from analyzeStock_result [OF this, of fl lib]
  show "\<exists>r. analyzeStock fl lib ex_scan_market t = Inr r \<and>
         symbol r = replace_first ''.JK'' [] (toUpperCase t)"
    by auto
next
  show "analyzeStock fl lib ex_scan_market ''GOTO.JK'' =
     Inl (Failed (UpstreamFailure ''No data found''))"
    by (simp add: analyzeStock_def ex_scan_market_def)
qed

lemma ex_selected_tickers:
  "tickersToScan (Some ex_selected) =
     [''BBCA.JK'', ''TLKM.JK'', ''GOTO.JK'', ''BMRI.JK'', ''ASII.JK'']"
  "tickersToScan (Some [''BBCA'']) = [''BBCA.JK'']"
  by code_simp+

text \<open>
  Claim C9 says that the scan returns the successful results. \<^verbatim>\<open>revalidatePath\<close> is
  called after the results are filtered and inside the outer \<^verbatim>\<open>try\<close>: a scan of one
  ticker whose analysis succeeds returns no data when that call throws.
\<close>

theorem scanMarket_revalidation_counterexample:
  "map (map_sum id symbol \<circ> analyzeStock fl_double (ex_lib 50 90) ex_scan_market)
     (tickersToScan (Some [''BBCA''])) = [Inr ''BBCA''] \<and>
   scanMarket fl_double (ex_lib 50 90) ex_scan_market
     (\<lambda>path. Some (UpstreamFailure ''revalidatePath'')) (Some [''BBCA'']) =
     Some \<lparr> success = False, data = None,
            error = Some (UpstreamFailure ''revalidatePath'') \<rparr>"
proof -
  from ex_scan_analysis(1) [of "''BBCA.JK''" fl_double "ex_lib 50 90"]
  obtain r where "analyzeStock fl_double (ex_lib 50 90) ex_scan_market ''BBCA.JK'' = Inr r"
    "symbol r = ''BBCA''"
    by (auto simp: toUpperCase_def uc_table_def)
  then have "map (map_sum id symbol \<circ> analyzeStock fl_double (ex_lib 50 90) ex_scan_market)
     (tickersToScan (Some [''BBCA''])) = [Inr ''BBCA'']"
    by (simp add: ex_selected_tickers)
  moreover have "processInBatches (tickersToScan (Some [''BBCA''])) 5
      (scanProcessor fl_double (ex_lib 50 90) ex_scan_market) \<noteq> None"
    unfolding processInBatches_def by (subst processInBatches_loop_map) simp_all
  then have "scanMarket fl_double (ex_lib 50 90) ex_scan_market
     (\<lambda>path. Some (UpstreamFailure ''revalidatePath'')) (Some [''BBCA'']) =
     Some \<lparr> success = False, data = None,
            error = Some (UpstreamFailure ''revalidatePath'') \<rparr>"
    by (auto simp: scanMarket_def Let_def)
  ultimately show ?thesis by (rule conjI)
qed

theorem scanMarket_isolates_failures_witness:
  "map_option (map (\<lambda>x. (record_symbol x, has_error x)))
     (processInBatches (tickersToScan (Some ex_selected)) 5
        (scanProcessor fl_double (ex_lib 50 90) ex_scan_market)) =
     Some [(Some ''BBCA'', False), (Some ''TLKM'', False), (Some ''GOTO'', True),
           (Some ''BMRI'', False), (Some ''ASII'', False)] \<and>
   map_option (\<lambda>response. (success response,
                  map_option (map (\<lambda>x. (record_symbol x, has_error x))) (data response)))
     (scanMarket fl_double (ex_lib 50 90) ex_scan_market (\<lambda>path. None) (Some ex_selected)) =
     Some (True, Some [(Some ''BBCA'', False), (Some ''TLKM'', False),
                       (Some ''BMRI'', False), (Some ''ASII'', False)])"
proof -
  let ?an = "analyzeStock fl_double (ex_lib 50 90) ex_scan_market"
  from ex_scan_analysis(1) [of "''BBCA.JK''" fl_double "ex_lib 50 90"]
  obtain r1 where r1: "?an ''BBCA.JK'' = Inr r1" "symbol r1 = ''BBCA''"
    by (auto simp: toUpperCase_def uc_table_def)
  from ex_scan_analysis(1) [of "''TLKM.JK''" fl_double "ex_lib 50 90"]
  obtain r2 where r2: "?an ''TLKM.JK'' = Inr r2" "symbol r2 = ''TLKM''"
    by (auto simp: toUpperCase_def uc_table_def)
  from ex_scan_analysis(1) [of "''BMRI.JK''" fl_double "ex_lib 50 90"]
  obtain r3 where r3: "?an ''BMRI.JK'' = Inr r3" "symbol r3 = ''BMRI''"
    by (auto simp: toUpperCase_def uc_table_def)
  from ex_scan_analysis(1) [of "''ASII.JK''" fl_double "ex_lib 50 90"]
  obtain r4 where r4: "?an ''ASII.JK'' = Inr r4" "symbol r4 = ''ASII''"
    by (auto simp: toUpperCase_def uc_table_def)
  note f = ex_scan_analysis(2) [of fl_double "ex_lib 50 90"]
  from scanMarket_isolates_failures [of "Some ex_selected" fl_double "ex_lib 50 90"
      ex_scan_market "\<lambda>path. None"]
  show ?thesis
    unfolding ex_selected_tickers
    by (simp add: r1 r2 r3 r4 f List.map_filter_simps)
qed

end
